theory Spec2Isabelle
  imports Complex_Main "HOL-Library.Sublist" "HOL-Library.Multiset"
begin

section \<open>Python values used by the service\<close>

subsection \<open>Strings\<close>

text \<open>
  A Python \<^verbatim>\<open>str\<close> is a sequence of Unicode code points, so a string is a list of
  natural numbers. Literals of the source written in ASCII are given through \<open>py\<close>;
  the Cyrillic literals are given by their code points.
\<close>

type_synonym pystr = "nat list"

definition py :: "string \<Rightarrow> pystr" where
  "py s = map of_char s"

text \<open>
  \<^verbatim>\<open>str.lower()\<close> applies the Unicode case mapping of the Python runtime, which is
  not written out here: the functions below that lower-case a string take the
  lower-casing as their parameter \<open>lower\<close>, and what is proved of them holds for every
  function in its place.

  \<open>str_lower\<close> is the case mapping of Basic Latin (\<open>A\<close>-\<open>Z\<close>) and of the Cyrillic
  letters U+0400 to U+042F, one code point at a time. It stands for \<^verbatim>\<open>str.lower()\<close> at
  the concrete inputs below only, which are written in these two alphabets.
\<close>

definition lower_cp :: "nat \<Rightarrow> nat" where
  "lower_cp c =
     (if 65 \<le> c \<and> c \<le> 90 then c + 32
      else if 1040 \<le> c \<and> c \<le> 1071 then c + 32
      else if 1024 \<le> c \<and> c \<le> 1039 then c + 80
      else c)"

definition str_lower :: "pystr \<Rightarrow> pystr" where
  "str_lower s = map lower_cp s"

text \<open>
  \<^verbatim>\<open>str.isspace()\<close> of one code point: the code points that \<^verbatim>\<open>str.strip()\<close>
  without an argument removes.
\<close>

definition isspace :: "nat \<Rightarrow> bool" where
  "isspace c \<longleftrightarrow>
     c \<in> set [9, 10, 11, 12, 13, 28, 29, 30, 31, 32, 133, 160, 5760,
              8192, 8193, 8194, 8195, 8196, 8197, 8198, 8199, 8200, 8201, 8202,
              8232, 8233, 8239, 8287, 12288]"

definition str_strip :: "pystr \<Rightarrow> pystr" where
  "str_strip s = rev (dropWhile isspace (rev (dropWhile isspace s)))"

subsection \<open>Exceptions\<close>

text \<open>
  The exception classes that the handlers of the source tell apart, and
  \<^verbatim>\<open>HTTPException(status_code, detail)\<close>. The detail text of the source is an
  f-string around \<^verbatim>\<open>str(e)\<close>; the model keeps which of the messages it is.
\<close>

datatype detail =
    Request_error      \<comment> \<open>the message of line 145\<close>
  | Malformed_answer   \<comment> \<open>the message of line 147\<close>
  | Internal_error     \<comment> \<open>the message of line 149\<close>
  | Str_of_exception   \<comment> \<open>\<^verbatim>\<open>str(e)\<close>, line 195\<close>

datatype py_exc =
    RequestException   \<comment> \<open>\<^verbatim>\<open>requests.exceptions.RequestException\<close> and its subclasses\<close>
  | KeyError
  | TypeError
  | IndexError
  | OtherException     \<comment> \<open>any other subclass of \<^verbatim>\<open>Exception\<close>\<close>
  | HTTPException (status_code: nat) (detail: detail)

subsection \<open>Dictionaries with literal contents\<close>

text \<open>
  A dict literal is the list of its items in source order. \<open>key in d\<close> and \<open>d[key]\<close>
  are separate operations in Python, and the second raises \<^verbatim>\<open>KeyError\<close> for a
  missing key.
\<close>

definition dict_contains :: "('k \<times> 'v) list \<Rightarrow> 'k \<Rightarrow> bool" where
  "dict_contains d k \<longleftrightarrow> k \<in> set (map fst d)"

definition dict_getitem :: "('k \<times> 'v) list \<Rightarrow> 'k \<Rightarrow> py_exc + 'v" where
  "dict_getitem d k = (case map_of d k of None \<Rightarrow> Inl KeyError | Some v \<Rightarrow> Inr v)"

definition dict_get :: "('k \<times> 'v) list \<Rightarrow> 'k \<Rightarrow> 'v \<Rightarrow> 'v" where
  "dict_get d k dflt = (case map_of d k of None \<Rightarrow> dflt | Some v \<Rightarrow> v)"

section \<open>Static reference data\<close>

record coords =
  lat :: rat
  lon :: rat

definition CITY_COORDINATES :: "(pystr \<times> coords) list" where
  "CITY_COORDINATES =
    [(py ''moscow'', \<lparr>lat = 55.7558, lon = 37.6173\<rparr>),
     (py ''london'', \<lparr>lat = 51.5074, lon = -0.1278\<rparr>),
     (py ''new york'', \<lparr>lat = 40.7128, lon = -74.0060\<rparr>),
     (py ''tokyo'', \<lparr>lat = 35.6762, lon = 139.6503\<rparr>),
     (py ''paris'', \<lparr>lat = 48.8566, lon = 2.3522\<rparr>),
     (py ''berlin'', \<lparr>lat = 52.5200, lon = 13.4050\<rparr>),
     ([1082, 1080, 1077, 1074], \<lparr>lat = 50.4501, lon = 30.5234\<rparr>),
     ([1089, 1072, 1085, 1082, 1090, 45, 1087, 1077, 1090, 1077, 1088, 1073, 1091, 1088, 1075],
        \<lparr>lat = 59.9343, lon = 30.3351\<rparr>),
     ([1089, 1086, 1095, 1080], \<lparr>lat = 43.5855, lon = 39.7231\<rparr>),
     ([1082, 1072, 1079, 1072, 1085, 1100], \<lparr>lat = 55.7961, lon = 49.1064\<rparr>)]"

section \<open>Coordinate resolution\<close>

text \<open>
  \<^verbatim>\<open>get_city_coordinates\<close>, lines 88 to 97, with \<^verbatim>\<open>str.lower\<close> as the parameter
  \<open>lower\<close>. The result is a sum so that the \<^verbatim>\<open>KeyError\<close> of the subscript in line
  94 is a possible outcome of the model.
\<close>

definition get_city_coordinates :: "(pystr \<Rightarrow> pystr) \<Rightarrow> pystr \<Rightarrow> py_exc + coords" where
  "get_city_coordinates lower city =
     (let city_lower = str_strip (lower city) in
      if dict_contains CITY_COORDINATES city_lower
      then dict_getitem CITY_COORDINATES city_lower
      else Inr \<lparr>lat = 55.7558, lon = 37.6173\<rparr>)"

section \<open>JSON values and the Python operations on them\<close>

text \<open>
  What \<^verbatim>\<open>response.json()\<close> can return. A float is kept by its value
  (\<open>Infinity True\<close> is minus infinity); a dict is the list of its items, read with
  \<open>map_of\<close>. Python's \<^verbatim>\<open>None\<close> is \<open>JNull\<close>.
\<close>

datatype pyfloat = Finite rat | Infinity bool | NaN

datatype json =
    JNull
  | JBool bool
  | JInt int
  | JFloat pyfloat
  | JStr pystr
  | JList "json list"
  | JDict "(pystr \<times> json) list"

definition bind_exc :: "py_exc + 'a \<Rightarrow> ('a \<Rightarrow> py_exc + 'b) \<Rightarrow> py_exc + 'b" where
  "bind_exc m f = (case m of Inl e \<Rightarrow> Inl e | Inr x \<Rightarrow> f x)"

text \<open>\<^verbatim>\<open>bool(v)\<close>: the truth value that \<^verbatim>\<open>if v\<close> and \<^verbatim>\<open>v or d\<close> test.\<close>

fun truthy :: "json \<Rightarrow> bool" where
  "truthy JNull = False"
| "truthy (JBool b) = b"
| "truthy (JInt i) = (i \<noteq> 0)"
| "truthy (JFloat x) = (x \<noteq> Finite 0)"
| "truthy (JStr s) = (s \<noteq> [])"
| "truthy (JList xs) = (xs \<noteq> [])"
| "truthy (JDict kvs) = (kvs \<noteq> [])"

text \<open>\<^verbatim>\<open>v[key]\<close> for a string key: only a dict can be subscripted by a string.\<close>

fun subscript_key :: "json \<Rightarrow> pystr \<Rightarrow> py_exc + json" where
  "subscript_key (JDict kvs) key = dict_getitem kvs key"
| "subscript_key _ key = Inl TypeError"

fun str_contains :: "pystr \<Rightarrow> pystr \<Rightarrow> bool" where
  "str_contains [] key = (key = [])"
| "str_contains (c # s) key = (prefix key (c # s) \<or> str_contains s key)"

text \<open>
  \<^verbatim>\<open>key in v\<close> for a string key: a key of a dict, an element of a list, a substring
  of a string; the other values are not iterable.
\<close>

fun contains_key :: "pystr \<Rightarrow> json \<Rightarrow> py_exc + bool" where
  "contains_key key (JDict kvs) = Inr (dict_contains kvs key)"
| "contains_key key (JList xs) = Inr (JStr key \<in> set xs)"
| "contains_key key (JStr s) = Inr (str_contains s key)"
| "contains_key key _ = Inl TypeError"

text \<open>
  \<^verbatim>\<open>v[0]\<close>. The keys of a parsed JSON object are strings, so \<open>0\<close> is never a key
  of a dict.
\<close>

fun subscript_0 :: "json \<Rightarrow> py_exc + json" where
  "subscript_0 (JList xs) = (case xs of [] \<Rightarrow> Inl IndexError | x # _ \<Rightarrow> Inr x)"
| "subscript_0 (JStr s) = (case s of [] \<Rightarrow> Inl IndexError | c # _ \<Rightarrow> Inr (JStr [c]))"
| "subscript_0 (JDict kvs) = Inl KeyError"
| "subscript_0 _ = Inl TypeError"

text \<open>
  A value as the key of a dict whose keys are integers: lists and dicts are not
  hashable; \<^verbatim>\<open>True\<close>, \<^verbatim>\<open>1\<close> and \<^verbatim>\<open>1.0\<close> are the same key.
\<close>

fun hashable :: "json \<Rightarrow> bool" where
  "hashable (JList xs) = False"
| "hashable (JDict kvs) = False"
| "hashable _ = True"

fun int_key_of :: "json \<Rightarrow> int option" where
  "int_key_of (JInt i) = Some i"
| "int_key_of (JBool b) = Some (if b then 1 else 0)"
| "int_key_of (JFloat (Finite q)) = (if of_int \<lfloor>q\<rfloor> = q then Some \<lfloor>q\<rfloor> else None)"
| "int_key_of _ = None"

definition int_dict_get :: "(int \<times> 'v) list \<Rightarrow> json \<Rightarrow> 'v \<Rightarrow> py_exc + 'v" where
  "int_dict_get d v dflt =
     (if hashable v
      then Inr (case int_key_of v of None \<Rightarrow> dflt | Some k \<Rightarrow> dict_get d k dflt)
      else Inl TypeError)"

section \<open>Weather codes\<close>

definition WEATHER_CODES :: "(int \<times> pystr) list" where
  "WEATHER_CODES =
    [(0, [1071, 1089, 1085, 1086]),
     (1, [1042, 32, 1086, 1089, 1085, 1086, 1074, 1085, 1086, 1084, 32, 1103, 1089, 1085, 1086]),
     (2, [1055, 1077, 1088, 1077, 1084, 1077, 1085, 1085, 1072, 1103, 32, 1086, 1073, 1083,
          1072, 1095, 1085, 1086, 1089, 1090, 1100]),
     (3, [1055, 1072, 1089, 1084, 1091, 1088, 1085, 1086]),
     (45, [1058, 1091, 1084, 1072, 1085]),
     (48, [1048, 1079, 1084, 1086, 1088, 1086, 1079, 1100]),
     (51, [1051, 1077, 1075, 1082, 1072, 1103, 32, 1084, 1086, 1088, 1086, 1089, 1100]),
     (53, [1059, 1084, 1077, 1088, 1077, 1085, 1085, 1072, 1103, 32, 1084, 1086, 1088, 1086,
           1089, 1100]),
     (55, [1057, 1080, 1083, 1100, 1085, 1072, 1103, 32, 1084, 1086, 1088, 1086, 1089, 1100]),
     (56, [1051, 1077, 1075, 1082, 1072, 1103, 32, 1083, 1077, 1076, 1103, 1085, 1072, 1103, 32,
           1084, 1086, 1088, 1086, 1089, 1100]),
     (57, [1057, 1080, 1083, 1100, 1085, 1072, 1103, 32, 1083, 1077, 1076, 1103, 1085, 1072,
           1103, 32, 1084, 1086, 1088, 1086, 1089, 1100]),
     (61, [1053, 1077, 1073, 1086, 1083, 1100, 1096, 1086, 1081, 32, 1076, 1086, 1078, 1076,
           1100]),
     (63, [1059, 1084, 1077, 1088, 1077, 1085, 1085, 1099, 1081, 32, 1076, 1086, 1078, 1076,
           1100]),
     (65, [1057, 1080, 1083, 1100, 1085, 1099, 1081, 32, 1076, 1086, 1078, 1076, 1100]),
     (66, [1051, 1077, 1075, 1082, 1080, 1081, 32, 1083, 1077, 1076, 1103, 1085, 1086, 1081, 32,
           1076, 1086, 1078, 1076, 1100]),
     (67, [1057, 1080, 1083, 1100, 1085, 1099, 1081, 32, 1083, 1077, 1076, 1103, 1085, 1086,
           1081, 32, 1076, 1086, 1078, 1076, 1100]),
     (71, [1053, 1077, 1073, 1086, 1083, 1100, 1096, 1086, 1081, 32, 1089, 1085, 1077, 1075]),
     (73, [1059, 1084, 1077, 1088, 1077, 1085, 1085, 1099, 1081, 32, 1089, 1085, 1077, 1075]),
     (75, [1057, 1080, 1083, 1100, 1085, 1099, 1081, 32, 1089, 1085, 1077, 1075]),
     (77, [1057, 1085, 1077, 1078, 1085, 1099, 1077, 32, 1079, 1077, 1088, 1085, 1072]),
     (80, [1053, 1077, 1073, 1086, 1083, 1100, 1096, 1080, 1077, 32, 1083, 1080, 1074, 1085,
           1080]),
     (81, [1059, 1084, 1077, 1088, 1077, 1085, 1085, 1099, 1077, 32, 1083, 1080, 1074, 1085,
           1080]),
     (82, [1057, 1080, 1083, 1100, 1085, 1099, 1077, 32, 1083, 1080, 1074, 1085, 1080]),
     (85, [1053, 1077, 1073, 1086, 1083, 1100, 1096, 1080, 1077, 32, 1089, 1085, 1077, 1075,
           1086, 1087, 1072, 1076, 1099]),
     (86, [1057, 1080, 1083, 1100, 1085, 1099, 1077, 32, 1089, 1085, 1077, 1075, 1086, 1087,
           1072, 1076, 1099]),
     (95, [1043, 1088, 1086, 1079, 1072]),
     (96, [1043, 1088, 1086, 1079, 1072, 32, 1089, 32, 1085, 1077, 1073, 1086, 1083, 1100, 1096,
           1080, 1084, 32, 1075, 1088, 1072, 1076, 1086, 1084]),
     (99, [1043, 1088, 1086, 1079, 1072, 32, 1089, 32, 1089, 1080, 1083, 1100, 1085, 1099, 1084,
           32, 1075, 1088, 1072, 1076, 1086, 1084])]"

section \<open>The weather client\<close>

text \<open>
  The provider as the client meets it. \<^verbatim>\<open>requests.get\<close> either raises or returns
  a response with a status code, and \<^verbatim>\<open>response.json()\<close> either raises or returns
  the parsed body. A provider gives the outcome of the \<open>k\<close>-th GET that one call of
  the client issues, \<open>k = 0, 1, \<dots>\<close>
\<close>

datatype http_outcome =
    Raised py_exc
  | Response nat "py_exc + json"

type_synonym provider = "nat \<Rightarrow> http_outcome"

definition always :: "http_outcome \<Rightarrow> provider" where
  "always outcome k = outcome"

text \<open>
  \<^verbatim>\<open>Response.raise_for_status()\<close> of the requests library: \<^verbatim>\<open>HTTPError\<close>, a
  \<^verbatim>\<open>RequestException\<close>, for the client-error and server-error codes, and nothing
  for any other code.
\<close>

definition raise_for_status :: "nat \<Rightarrow> py_exc + unit" where
  "raise_for_status status =
     (if 400 \<le> status \<and> status < 600 then Inl RequestException else Inr ())"

record observation =
  temperature :: json
  humidity :: json
  description :: pystr
  windspeed :: json
  winddirection :: json
  weathercode :: json

record weather_data = observation +
  coordinates :: coords

text \<open>
  Lines 128 to 132: the value of the variable \<^verbatim>\<open>humidity\<close> before the
  \<^verbatim>\<open>return\<close>.
\<close>

definition hourly_humidity :: "json \<Rightarrow> py_exc + json" where
  "hourly_humidity data =
     bind_exc (contains_key (py ''hourly'') data) (\<lambda>has_hourly.
       if \<not> has_hourly then Inr JNull
       else
         bind_exc (subscript_key data (py ''hourly'')) (\<lambda>hourly.
         bind_exc (contains_key (py ''relativehumidity_2m'') hourly) (\<lambda>has_series.
           if \<not> has_series then Inr JNull
           else
             bind_exc (subscript_key data (py ''hourly'')) (\<lambda>hourly.
             bind_exc (subscript_key hourly (py ''relativehumidity_2m'')) (\<lambda>humidities.
               if truthy humidities then subscript_0 humidities else Inr JNull)))))"

text \<open>
  The body of the \<^verbatim>\<open>try\<close> of \<^verbatim>\<open>get_weather_from_openmeteo\<close>, lines 102 to
  142, with the number of GETs it has issued and with \<^verbatim>\<open>str.lower\<close> as the parameter
  \<open>lower\<close>. The request carries the coordinates; the provider's answer is whatever the
  provider gives.
\<close>

definition openmeteo_try ::
    "(pystr \<Rightarrow> pystr) \<Rightarrow> provider \<Rightarrow> pystr \<Rightarrow> nat \<times> (py_exc + weather_data)" where
  "openmeteo_try lower upstream city =
     (case get_city_coordinates lower city of
        Inl e \<Rightarrow> (0, Inl e)
      | Inr coords \<Rightarrow>
          (1,
           case upstream 0 of
             Raised e \<Rightarrow> Inl e
           | Response status body \<Rightarrow>
               bind_exc (raise_for_status status) (\<lambda>_.
               bind_exc body (\<lambda>data.
               bind_exc (subscript_key data (py ''current_weather'')) (\<lambda>current.
               bind_exc (subscript_key current (py ''weathercode'')) (\<lambda>weather_code.
               bind_exc (int_dict_get WEATHER_CODES weather_code
                           [1053, 1077, 1080, 1079, 1074, 1077, 1089, 1090, 1085, 1086])
                 (\<lambda>description.
               bind_exc (hourly_humidity data) (\<lambda>humidity.
               bind_exc (subscript_key current (py ''temperature'')) (\<lambda>temperature.
               bind_exc (subscript_key current (py ''windspeed'')) (\<lambda>windspeed.
               bind_exc (subscript_key current (py ''winddirection'')) (\<lambda>winddirection.
                 Inr \<lparr>temperature = temperature,
                      humidity = (if truthy humidity then humidity else JInt 50),
                      description = description,
                      windspeed = windspeed,
                      winddirection = winddirection,
                      weathercode = weather_code,
                      coordinates = coords\<rparr>)))))))))))"


text \<open>The \<^verbatim>\<open>except\<close> clauses, lines 144 to 149, in their order.\<close>

fun except_clauses :: "py_exc \<Rightarrow> py_exc" where
  "except_clauses RequestException = HTTPException 503 Request_error"
| "except_clauses KeyError = HTTPException 500 Malformed_answer"
| "except_clauses _ = HTTPException 500 Internal_error"

definition get_weather_from_openmeteo ::
    "(pystr \<Rightarrow> pystr) \<Rightarrow> provider \<Rightarrow> pystr \<Rightarrow> nat \<times> (py_exc + weather_data)" where
  "get_weather_from_openmeteo lower upstream city =
     (case openmeteo_try lower upstream city of
        (gets, Inl e) \<Rightarrow> (gets, Inl (except_clauses e))
      | (gets, Inr weather) \<Rightarrow> (gets, Inr weather))"

section \<open>Storage\<close>

text \<open>
  A row of the table \<^verbatim>\<open>weather_requests\<close> (\<^verbatim>\<open>models.WeatherRequest\<close>). The
  timestamp is a reading of the wall clock in microseconds. Rows are written by the
  insert below only, which always stamps them.
\<close>

record WeatherRequest = observation +
  row_id :: int
  row_city :: pystr
  row_timestamp :: int

text \<open>
  Modelled from the spec: the storage engine is set up in \<^verbatim>\<open>database.py\<close>, which is
  not among the sources. The spec has the id assigned by the server, unique and
  increasing; the model gives a new row one more than the largest id in use.
\<close>

definition next_id :: "WeatherRequest list \<Rightarrow> int" where
  "next_id tbl = fold max (map row_id tbl) 0 + 1"

text \<open>
  Lines 161 to 172: \<^verbatim>\<open>db.add\<close>, \<^verbatim>\<open>db.commit\<close> and \<^verbatim>\<open>db.refresh\<close> of a
  new row, when the commit succeeds. \<open>now\<close> is what \<^verbatim>\<open>datetime.utcnow\<close>, the column
  default, returns when the row is written. The result is the refreshed object and the
  table, in storage order. The values are kept as the handler passes them: how a column
  type changes a value that it stores (a Float column gives \<open>50\<close> back as \<open>50.0\<close>) is not
  described, and a value that the engine cannot store is a commit that raises.
\<close>

definition db_insert ::
    "int \<Rightarrow> pystr \<Rightarrow> weather_data \<Rightarrow> WeatherRequest list
      \<Rightarrow> WeatherRequest \<times> WeatherRequest list" where
  "db_insert now city weather tbl =
     (let db_weather =
            \<lparr>temperature = temperature weather,
             humidity = humidity weather,
             description = description weather,
             windspeed = windspeed weather,
             winddirection = winddirection weather,
             weathercode = weathercode weather,
             row_id = next_id tbl,
             row_city = city,
             row_timestamp = now\<rparr>
      in (db_weather, tbl @ [db_weather]))"

text \<open>
  \<^verbatim>\<open>order_by(timestamp.desc())\<close>. SQL leaves the order of rows with equal
  timestamps open; the model fixes it to the storage order, the same at every query.
\<close>

definition order_by_timestamp_desc :: "WeatherRequest list \<Rightarrow> WeatherRequest list" where
  "order_by_timestamp_desc tbl = sort_key (\<lambda>r. - row_timestamp r) tbl"

text \<open>
  The parameters of a query are bound as 64-bit signed integers: for an integer outside
  this range the driver raises \<^verbatim>\<open>OverflowError\<close>.
\<close>

definition int64 :: "int \<Rightarrow> bool" where
  "int64 n \<longleftrightarrow> - (2 ^ 63) \<le> n \<and> n < 2 ^ 63"

text \<open>
  \<^verbatim>\<open>offset(skip).limit(limit).all()\<close>. The engine is set up in \<^verbatim>\<open>database.py\<close>,
  which is not among the sources; for negative arguments the model follows SQLite, where
  a negative offset skips nothing and a negative limit does not limit.
\<close>

definition offset_limit :: "int \<Rightarrow> int \<Rightarrow> 'a list \<Rightarrow> py_exc + 'a list" where
  "offset_limit skip limit rows =
     (if int64 skip \<and> int64 limit
      then Inr (if limit < 0 then drop (nat skip) rows
                else take (nat limit) (drop (nat skip) rows))
      else Inl OtherException)"

datatype isotext = Isoformat (instant: int)

record history_item = observation +
  item_id :: int
  item_city :: pystr
  item_timestamp :: isotext

text \<open>The dict that the comprehension of lines 210 to 223 builds from one row.
  \<open>Isoformat t\<close> stands for the text that \<^verbatim>\<open>isoformat()\<close> gives for the instant \<open>t\<close>.
\<close>

definition history_item_of :: "WeatherRequest \<Rightarrow> history_item" where
  "history_item_of item =
     \<lparr>temperature = temperature item,
      humidity = humidity item,
      description = description item,
      windspeed = windspeed item,
      winddirection = winddirection item,
      weathercode = weathercode item,
      item_id = row_id item,
      item_city = row_city item,
      item_timestamp = Isoformat (row_timestamp item)\<rparr>"

text \<open>
  \<^verbatim>\<open>get_history\<close>, lines 205 to 223. An absent query parameter takes its default.
  The handler catches nothing: an exception of the query is the outcome of the call.
\<close>

definition get_history ::
    "int option \<Rightarrow> int option \<Rightarrow> WeatherRequest list \<Rightarrow> py_exc + history_item list" where
  "get_history skip limit db =
     (let skip = (case skip of None \<Rightarrow> 0 | Some n \<Rightarrow> n);
          limit = (case limit of None \<Rightarrow> 10 | Some n \<Rightarrow> n)
      in bind_exc (offset_limit skip limit (order_by_timestamp_desc db))
           (\<lambda>history. Inr (map history_item_of history)))"

text \<open>The rows that a call returns: none when it raises.\<close>

definition rows_of :: "py_exc + 'a list \<Rightarrow> 'a list" where
  "rows_of outcome = (case outcome of Inl ex \<Rightarrow> [] | Inr rows \<Rightarrow> rows)"

section \<open>The request handlers\<close>

text \<open>
  The process-wide metrics, as the sequence of the updates made to them, oldest first:
  an increment of \<^verbatim>\<open>REQUEST_COUNT\<close> under a label, or an observation of
  \<^verbatim>\<open>REQUEST_LATENCY\<close>.
\<close>

datatype metric_event = Inc pystr | Observe int

record state =
  table :: "WeatherRequest list"
  metrics :: "metric_event list"
  upstream_gets :: nat

text \<open>
  What one request meets: \<^verbatim>\<open>str.lower\<close> of the runtime; the provider; the storage
  engine, whose commit either writes the row or raises and writes nothing; the readings
  of the wall clock, in microseconds, at line 155, at the write of the row, at line 186
  and at line 197; and the value of the environment variable read at line 27.
\<close>

record env =
  runtime_lower :: "pystr \<Rightarrow> pystr"
  upstream :: provider
  commit_raises :: bool
  time_start :: int
  utcnow_insert :: int
  utcnow_response :: int
  time_end :: int
  WEATHER_API_PROVIDER :: pystr

record weather_response = observation +
  resp_city :: pystr
  resp_coordinates :: coords
  resp_provider :: pystr
  resp_timestamp :: isotext
  resp_id :: int

definition inc :: "pystr \<Rightarrow> state \<Rightarrow> state" where
  "inc label st = st\<lparr>metrics := metrics st @ [Inc label]\<rparr>"

definition observe :: "int \<Rightarrow> state \<Rightarrow> state" where
  "observe latency st = st\<lparr>metrics := metrics st @ [Observe latency]\<rparr>"

text \<open>The body of the \<^verbatim>\<open>try\<close> of \<^verbatim>\<open>get_weather_by_city\<close>, lines 158 to 188.\<close>

definition weather_try :: "env \<Rightarrow> pystr \<Rightarrow> state \<Rightarrow> (py_exc + weather_response) \<times> state" where
  "weather_try e city st =
     (case get_weather_from_openmeteo (runtime_lower e) (upstream e) city of
        (gets, fetched) \<Rightarrow>
          (let st = st\<lparr>upstream_gets := upstream_gets st + gets\<rparr> in
           case fetched of
             Inl he \<Rightarrow> (Inl he, st)
           | Inr weather_data \<Rightarrow>
               if commit_raises e then (Inl OtherException, st)
               else
                 (case db_insert (utcnow_insert e) city weather_data (table st) of
                    (db_weather, tbl) \<Rightarrow>
                      (Inr \<lparr>temperature = temperature weather_data,
                            humidity = humidity weather_data,
                            description = description weather_data,
                            windspeed = windspeed weather_data,
                            winddirection = winddirection weather_data,
                            weathercode = weathercode weather_data,
                            resp_city = city,
                            resp_coordinates = coordinates weather_data,
                            resp_provider = WEATHER_API_PROVIDER e,
                            resp_timestamp = Isoformat (utcnow_response e),
                            resp_id = row_id db_weather\<rparr>,
                       inc (py ''success'') (st\<lparr>table := tbl\<rparr>)))))"

text \<open>
  \<^verbatim>\<open>get_weather_by_city\<close>, lines 152 to 198: the \<^verbatim>\<open>try\<close>, its two
  \<^verbatim>\<open>except\<close> clauses and the \<^verbatim>\<open>finally\<close>.
\<close>

definition get_weather_by_city ::
    "env \<Rightarrow> pystr \<Rightarrow> state \<Rightarrow> (py_exc + weather_response) \<times> state" where
  "get_weather_by_city e city st =
     (let start_time = time_start e;
          (result, st) =
             (case weather_try e city st of
                (Inr body, st) \<Rightarrow> (Inr body, st)
              | (Inl (HTTPException code text), st) \<Rightarrow>
                  (Inl (HTTPException code text), inc (py ''error'') st)
              | (Inl ex, st) \<Rightarrow>
                  (Inl (HTTPException 500 Str_of_exception), inc (py ''error'') st));
          latency = time_end e - start_time
      in (result, observe latency st))"

record health_body =
  status :: pystr
  api_status :: pystr
  health_provider :: pystr
  health_timestamp :: isotext
  version :: pystr

text \<open>
  \<^verbatim>\<open>health_check\<close>, lines 239 to 264. \<open>probe\<close> is the outcome of the GET of the
  status page, \<open>now\<close> the reading of the clock.
\<close>

definition health_check :: "pystr \<Rightarrow> int \<Rightarrow> http_outcome \<Rightarrow> health_body" where
  "health_check provider_name now probe =
     (case probe of
        Response code body \<Rightarrow>
          (let api_status = (if code = 200 then py ''healthy'' else py ''unhealthy'') in
           \<lparr>status = py ''healthy'',
            api_status = api_status,
            health_provider = provider_name,
            health_timestamp = Isoformat now,
            version = py ''1.0.0''\<rparr>)
      | Raised ex \<Rightarrow>
          \<lparr>status = py ''healthy'',
           api_status = py ''unreachable'',
           health_provider = provider_name,
           health_timestamp = Isoformat now,
           version = py ''1.0.0''\<rparr>)"

section \<open>Concrete inputs\<close>

text \<open>
  A well-formed answer of the provider with the given weather code and the given hourly
  humidity series, and the state of a process that has served no request yet.
\<close>

definition body_with :: "json \<Rightarrow> json \<Rightarrow> json" where
  "body_with code series =
     JDict [(py ''current_weather'',
               JDict [(py ''temperature'', JFloat (Finite 21.5)),
                      (py ''windspeed'', JFloat (Finite 3.4)),
                      (py ''winddirection'', JInt 180),
                      (py ''weathercode'', code)]),
            (py ''hourly'', JDict [(py ''relativehumidity_2m'', series)])]"

definition weather_with :: "json \<Rightarrow> pystr \<Rightarrow> json \<Rightarrow> weather_data" where
  "weather_with h d code =
     \<lparr>temperature = JFloat (Finite 21.5), humidity = h, description = d,
      windspeed = JFloat (Finite 3.4), winddirection = JInt 180, weathercode = code,
      coordinates = \<lparr>lat = 48.8566, lon = 2.3522\<rparr>\<rparr>"

definition row_with :: "int \<Rightarrow> int \<Rightarrow> WeatherRequest" where
  "row_with i t =
     \<lparr>temperature = JFloat (Finite 21.5), humidity = JInt 65,
      description = [1071, 1089, 1085, 1086],
      windspeed = JFloat (Finite 3.4), winddirection = JInt 180, weathercode = JInt 0,
      row_id = i, row_city = py ''paris'', row_timestamp = t\<rparr>"

definition four_rows :: "WeatherRequest list" where
  "four_rows = [row_with 1 10, row_with 2 5, row_with 3 10, row_with 4 20]"

definition fresh :: state where
  "fresh = \<lparr>table = [], metrics = [], upstream_gets = 0\<rparr>"

definition env_with :: "http_outcome \<Rightarrow> bool \<Rightarrow> env" where
  "env_with outcome fails =
     \<lparr>runtime_lower = str_lower, upstream = always outcome, commit_raises = fails,
      time_start = 1000,
      utcnow_insert = 1200, utcnow_response = 1300, time_end = 1500,
      WEATHER_API_PROVIDER = py ''openmeteo''\<rparr>"



text \<open>
  A request during which the wall clock is set back: the reading at line 155 is
  \<open>1000\<close>, the later reading at the write of the row is \<open>900\<close>.
\<close>

definition env_clock_back :: env where
  "env_clock_back =
     (env_with (Response 200 (Inr (body_with (JInt 0) (JList [JInt 65])))) False)
       \<lparr>time_start := 1000, utcnow_insert := 900\<rparr>"

section \<open>Properties of coordinate resolution\<close>

lemma dropWhile_spaces_append:
  "list_all isspace pre \<Longrightarrow> dropWhile isspace (pre @ s) = dropWhile isspace s"
  by (induction pre) simp_all

lemma str_strip_padded:
  assumes "list_all isspace pre" and "list_all isspace post"
    and "k \<noteq> []" and "\<not> isspace (hd k)" and "\<not> isspace (last k)"
  shows "str_strip (pre @ k @ post) = k"
proof -
  have front: "dropWhile isspace (pre @ k @ post) = k @ post"
    using assms(1,3,4) by (cases k) (simp_all add: dropWhile_spaces_append)
  have "list_all isspace (rev post)"
    using assms(2) by (simp add: list_all_iff)
  then have "dropWhile isspace (rev post @ rev k) = dropWhile isspace (rev k)"
    by (rule dropWhile_spaces_append)
  also have "\<dots> = rev k"
    using assms(3,5) by (cases k rule: rev_cases) simp_all
  finally show ?thesis
    by (simp add: str_strip_def front)
qed

lemma city_keys:
  "set (map fst CITY_COORDINATES) =
     {py ''moscow'', py ''london'', py ''new york'', py ''tokyo'', py ''paris'', py ''berlin'',
      [1082, 1080, 1077, 1074],
      [1089, 1072, 1085, 1082, 1090, 45, 1087, 1077, 1090, 1077, 1088, 1073, 1091, 1088, 1075],
      [1089, 1086, 1095, 1080], [1082, 1072, 1079, 1072, 1085, 1100]}"
  by (simp add: CITY_COORDINATES_def)

lemma city_key_shape:
  assumes "k \<in> set (map fst CITY_COORDINATES)"
  shows "k \<noteq> [] \<and> \<not> isspace (hd k) \<and> \<not> isspace (last k)"
  using assms unfolding city_keys by (auto simp: py_def isspace_def)

lemma city_keys_distinct: "distinct (map fst CITY_COORDINATES)"
  by (simp add: CITY_COORDINATES_def py_def)

lemma dict_contains_map_of: "dict_contains d k \<longleftrightarrow> map_of d k \<noteq> None"
  by (simp add: dict_contains_def map_of_eq_None_iff)

lemma get_city_coordinates_eq:
  "get_city_coordinates lower city =
     Inr (case map_of CITY_COORDINATES (str_strip (lower city)) of
            Some pair \<Rightarrow> pair
          | None \<Rightarrow> \<lparr>lat = 55.7558, lon = 37.6173\<rparr>)"
  by (auto simp: get_city_coordinates_def Let_def dict_contains_map_of dict_getitem_def
      split: option.splits)

lemma get_city_coordinates_padded:
  assumes "(k, pair) \<in> set CITY_COORDINATES"
    and "list_all isspace pre" and "list_all isspace post"
    and "lower city = pre @ k @ post"
  shows "get_city_coordinates lower city = Inr pair"
proof -
  have key: "k \<in> set (map fst CITY_COORDINATES)"
    using assms(1) by force
  have norm: "str_strip (lower city) = k"
    using city_key_shape [OF key] assms(2,3,4) by (simp add: str_strip_padded)
  have "map_of CITY_COORDINATES k = Some pair"
    using assms(1) city_keys_distinct by simp
  then show ?thesis
    by (simp add: get_city_coordinates_eq norm)
qed

lemma get_city_coordinates_normalised:
  "str_strip (lower city) = str_strip (lower city') \<Longrightarrow>
     get_city_coordinates lower city = get_city_coordinates lower city'"
  by (simp add: get_city_coordinates_eq)

text \<open>
  Claim C2. Whatever function \<^verbatim>\<open>str.lower\<close> is, for every input string: resolution
  never raises; it returns the pair stored under the lower-cased and then trimmed
  input when that is a key of the table, and the fixed default pair otherwise. For every
  stored item \<open>(k, pair)\<close>, an input whose lower-casing is \<open>k\<close> with any whitespace
  before and after it resolves to exactly \<open>pair\<close>. Two inputs with the same lower-cased
  and trimmed form resolve to the same pair: the case of the letters and the
  surrounding whitespace do not matter.
\<close>

theorem get_city_coordinates_resolves:
  "get_city_coordinates lower city =
     Inr (case map_of CITY_COORDINATES (str_strip (lower city)) of
            Some pair \<Rightarrow> pair
          | None \<Rightarrow> \<lparr>lat = 55.7558, lon = 37.6173\<rparr>)
   \<and> ((k, pair) \<in> set CITY_COORDINATES
        \<and> list_all isspace pre \<and> list_all isspace post \<and> lower city = pre @ k @ post
      \<longrightarrow> get_city_coordinates lower city = Inr pair)
   \<and> (str_strip (lower city) = str_strip (lower city')
      \<longrightarrow> get_city_coordinates lower city = get_city_coordinates lower city')"
  using get_city_coordinates_eq get_city_coordinates_padded get_city_coordinates_normalised
  by blast

lemmas string_eval = py_def str_lower_def lower_cp_def str_strip_def isspace_def

theorem get_city_coordinates_resolves_witness:
  "get_city_coordinates str_lower (py ''  PaRis '') = Inr \<lparr>lat = 48.8566, lon = 2.3522\<rparr>
   \<and> get_city_coordinates str_lower (py ''  PaRis '')
       = get_city_coordinates str_lower (py ''paris'')
   \<and> get_city_coordinates str_lower [32, 1050, 1048, 1045, 1042, 9, 32]
       = Inr \<lparr>lat = 50.4501, lon = 30.5234\<rparr>"
proof -
  have paris: "(py ''paris'', \<lparr>lat = 48.8566, lon = 2.3522\<rparr>) \<in> set CITY_COORDINATES"
    and kiev: "([1082, 1080, 1077, 1074], \<lparr>lat = 50.4501, lon = 30.5234\<rparr>)
      \<in> set CITY_COORDINATES"
    by (simp_all add: CITY_COORDINATES_def)
  have spaces: "list_all isspace [32, 32]" "list_all isspace [32]" "list_all isspace [9, 32]"
    by (simp_all add: isspace_def)
  have lowered: "str_lower (py ''  PaRis '') = [32, 32] @ py ''paris'' @ [32]"
    "str_lower [32, 1050, 1048, 1045, 1042, 9, 32] = [32] @ [1082, 1080, 1077, 1074] @ [9, 32]"
    by (simp_all add: string_eval)
  have same: "str_strip (str_lower (py ''  PaRis '')) = str_strip (str_lower (py ''paris''))"
    by (simp add: string_eval)
  from get_city_coordinates_resolves [of str_lower "py ''  PaRis ''" "py ''paris''"
      "\<lparr>lat = 48.8566, lon = 2.3522\<rparr>" "[32, 32]" "[32]" "py ''paris''"]
    paris spaces(1,2) lowered(1) same
  have first: "get_city_coordinates str_lower (py ''  PaRis '')
        = Inr \<lparr>lat = 48.8566, lon = 2.3522\<rparr>"
    and second: "get_city_coordinates str_lower (py ''  PaRis '')
        = get_city_coordinates str_lower (py ''paris'')"
    by blast+
  from get_city_coordinates_resolves [of str_lower "[32, 1050, 1048, 1045, 1042, 9, 32]"
      "[1082, 1080, 1077, 1074]" "\<lparr>lat = 50.4501, lon = 30.5234\<rparr>" "[32]" "[9, 32]"]
    kiev spaces(2,3) lowered(2)
  have third: "get_city_coordinates str_lower [32, 1050, 1048, 1045, 1042, 9, 32]
        = Inr \<lparr>lat = 50.4501, lon = 30.5234\<rparr>"
    by blast
  from first second third show ?thesis
    by blast
qed

lemma get_city_coordinates_in_table:
  "get_city_coordinates lower city \<in> Inr ` snd ` set CITY_COORDINATES"
  unfolding get_city_coordinates_eq
  by (auto simp: CITY_COORDINATES_def split: option.splits dest!: map_of_SomeD)

lemma moscow_entry:
  "map_of CITY_COORDINATES (py ''moscow'') = Some \<lparr>lat = 55.7558, lon = 37.6173\<rparr>"
  by (simp add: CITY_COORDINATES_def)

text \<open>
  Claim C10. The default pair is the pair stored under the key \<open>moscow\<close>. Hence,
  whatever \<^verbatim>\<open>str.lower\<close> is, the pair resolved for any input occurs in the table, and
  an input whose normalised name is not a key resolves to the entry of \<open>moscow\<close>, which
  is what the input \<open>moscow\<close> resolves to when its own normalised name is \<open>moscow\<close>.
\<close>

theorem default_pair_is_moscow:
  "dict_getitem CITY_COORDINATES (py ''moscow'') = Inr \<lparr>lat = 55.7558, lon = 37.6173\<rparr>
   \<and> get_city_coordinates lower city \<in> Inr ` snd ` set CITY_COORDINATES
   \<and> (\<not> dict_contains CITY_COORDINATES (str_strip (lower city))
        \<longrightarrow> get_city_coordinates lower city = dict_getitem CITY_COORDINATES (py ''moscow'')
          \<and> (str_strip (lower (py ''moscow'')) = py ''moscow''
               \<longrightarrow> get_city_coordinates lower city
                     = get_city_coordinates lower (py ''moscow'')))"
proof -
  have stored: "dict_getitem CITY_COORDINATES (py ''moscow'')
      = Inr \<lparr>lat = 55.7558, lon = 37.6173\<rparr>"
    by (simp add: dict_getitem_def moscow_entry)
  have known: "get_city_coordinates lower (py ''moscow'')
      = Inr \<lparr>lat = 55.7558, lon = 37.6173\<rparr>"
    if "str_strip (lower (py ''moscow'')) = py ''moscow''"
    using that by (simp add: get_city_coordinates_eq moscow_entry)
  have unknown: "get_city_coordinates lower city = Inr \<lparr>lat = 55.7558, lon = 37.6173\<rparr>"
    if "\<not> dict_contains CITY_COORDINATES (str_strip (lower city))"
    using that by (simp add: get_city_coordinates_def)
  show ?thesis
    using stored known unknown get_city_coordinates_in_table by simp
qed

theorem default_pair_is_moscow_witness:
  "\<not> dict_contains CITY_COORDINATES (str_strip (str_lower (py ''Atlantis'')))
   \<and> get_city_coordinates str_lower (py ''Atlantis'') = Inr \<lparr>lat = 55.7558, lon = 37.6173\<rparr>
   \<and> get_city_coordinates str_lower (py ''Atlantis'')
       = get_city_coordinates str_lower (py ''moscow'')"
proof -
  have unknown: "\<not> dict_contains CITY_COORDINATES (str_strip (str_lower (py ''Atlantis'')))"
    by (simp add: dict_contains_def CITY_COORDINATES_def string_eval)
  have fixed: "str_strip (str_lower (py ''moscow'')) = py ''moscow''"
    by (simp add: string_eval)
  from unknown fixed show ?thesis
    using default_pair_is_moscow [of str_lower "py ''Atlantis''"] by metis
qed

section \<open>Properties of the handlers\<close>

text \<open>
  Claim C5. Whatever the probe of the provider gives, the health handler answers with
  the top-level status \<open>healthy\<close>; the field \<open>api_status\<close> is \<open>healthy\<close> for a
  response with code 200, \<open>unhealthy\<close> for a response with another code, and
  \<open>unreachable\<close> when the probe raises.
\<close>

theorem health_check_status:
  "status (health_check provider_name now probe) = py ''healthy''
   \<and> api_status (health_check provider_name now probe) =
       (case probe of
          Raised ex \<Rightarrow> py ''unreachable''
        | Response code body \<Rightarrow> if code = 200 then py ''healthy'' else py ''unhealthy'')"
  by (simp add: health_check_def Let_def split: http_outcome.splits)

theorem health_check_status_witness:
  "status (health_check (py ''openmeteo'') 7 (Raised RequestException)) = py ''healthy''
   \<and> api_status (health_check (py ''openmeteo'') 7 (Raised RequestException))
       = py ''unreachable''
   \<and> api_status (health_check (py ''openmeteo'') 7 (Response 503 (Inl OtherException)))
       = py ''unhealthy''"
  using health_check_status [of "py ''openmeteo''" 7 "Raised RequestException"]
    health_check_status [of "py ''openmeteo''" 7 "Response 503 (Inl OtherException)"]
  by simp

text \<open>
  Claim C6. Every call of the weather handler makes exactly two updates of the metrics,
  in this order: one increment of the request counter, under \<open>error\<close> when the call
  fails and under \<open>success\<close> otherwise, and then one observation of the latency. So a
  failing call increments the error counter exactly once, before the observation, and
  the latency is observed exactly once whether the call fails or not.
\<close>

theorem get_weather_by_city_metrics:
  "metrics (snd (get_weather_by_city e city st)) =
     metrics st @
       [Inc (if isl (fst (get_weather_by_city e city st)) then py ''error'' else py ''success''),
        Observe (time_end e - time_start e)]"
  by (auto simp: get_weather_by_city_def weather_try_def Let_def inc_def observe_def
      split: prod.splits sum.splits py_exc.splits if_splits)

lemmas client_eval =
  get_weather_from_openmeteo_def openmeteo_try_def get_city_coordinates_eq always_def
  raise_for_status_def bind_exc_def body_with_def weather_with_def hourly_humidity_def
  dict_getitem_def dict_contains_def int_dict_get_def dict_get_def WEATHER_CODES_def
  CITY_COORDINATES_def string_eval

lemmas handler_eval =
  get_weather_by_city_def weather_try_def env_with_def fresh_def inc_def observe_def
  db_insert_def next_id_def

lemma timeout_call:
  "get_weather_by_city (env_with (Raised RequestException) False) (py ''paris'') fresh =
     (Inl (HTTPException 503 Request_error),
      \<lparr>table = [], metrics = [Inc (py ''error''), Observe 500], upstream_gets = 1\<rparr>)"
  by (simp add: handler_eval client_eval)

theorem get_weather_by_city_metrics_witness:
  "metrics (snd (get_weather_by_city (env_with (Raised RequestException) False)
      (py ''paris'') fresh)) = [Inc (py ''error''), Observe 500]"
  using get_weather_by_city_metrics [of "env_with (Raised RequestException) False"
      "py ''paris''" fresh]
  by (simp add: timeout_call)

section \<open>Properties of the history\<close>

lemma int64_iff: "0 \<le> n \<Longrightarrow> int64 n \<longleftrightarrow> n < 9223372036854775808"
  by (simp add: int64_def)

lemma get_history_in_range:
  assumes "0 \<le> skip" and "skip < 9223372036854775808"
    and "0 \<le> limit" and "limit < 9223372036854775808"
  shows "get_history (Some skip) (Some limit) db =
     Inr (map history_item_of
            (take (nat limit) (drop (nat skip) (order_by_timestamp_desc db))))"
  using assms by (simp add: get_history_def offset_limit_def bind_exc_def int64_iff)

lemma get_history_overflow:
  assumes "9223372036854775808 \<le> skip \<or> 9223372036854775808 \<le> limit"
  shows "get_history (Some skip) (Some limit) db = Inl OtherException"
  using assms by (auto simp: get_history_def offset_limit_def bind_exc_def int64_def)

lemma get_history_defaults:
  "get_history None (Some limit) db = get_history (Some 0) (Some limit) db"
  "get_history (Some skip) None db = get_history (Some skip) (Some 10) db"
  "get_history None None db = get_history (Some 0) (Some 10) db"
  by (simp_all add: get_history_def)

lemma order_by_timestamp_desc_sorted:
  "sorted_wrt (\<lambda>a b. row_timestamp b \<le> row_timestamp a) (order_by_timestamp_desc db)"
proof -
  have "sorted (map (\<lambda>r. - row_timestamp r) (order_by_timestamp_desc db))"
    unfolding order_by_timestamp_desc_def by (rule sorted_sort_key)
  then show ?thesis
    by (simp add: sorted_map)
qed

lemma order_by_timestamp_desc_mset: "mset (order_by_timestamp_desc db) = mset db"
  by (simp add: order_by_timestamp_desc_def)

lemma history_items_sorted:
  "sorted_wrt (\<lambda>a b. instant (item_timestamp b) \<le> instant (item_timestamp a))
     (map history_item_of (order_by_timestamp_desc db))"
  using order_by_timestamp_desc_sorted [of db]
  by (simp add: sorted_wrt_map history_item_of_def)

lemma history_item_fields:
  "item_id (history_item_of r) = row_id r \<and> item_city (history_item_of r) = row_city r
   \<and> item_timestamp (history_item_of r) = Isoformat (row_timestamp r)
   \<and> temperature (history_item_of r) = temperature r
   \<and> humidity (history_item_of r) = humidity r
   \<and> description (history_item_of r) = description r
   \<and> windspeed (history_item_of r) = windspeed r
   \<and> winddirection (history_item_of r) = winddirection r
   \<and> weathercode (history_item_of r) = weathercode r"
  by (simp add: history_item_of_def)

text \<open>
  Claim C7, as the code has it. For every table and for \<open>0 \<le> skip < 2\<^sup>6\<^sup>3\<close> and
  \<open>0 \<le> limit < 2\<^sup>6\<^sup>3\<close> the call returns, without an error, the rows in the order of
  the query, which holds every row of the table once with the newest timestamp first,
  without the first \<open>skip\<close> of them and cut after \<open>limit\<close>: \<open>limit\<close> rows, or the fewer
  (possibly none) that are left after \<open>skip\<close>. Every returned item carries the nine
  columns of its row. An absent \<open>skip\<close> is \<open>0\<close> and an absent \<open>limit\<close> is \<open>10\<close>. A
  \<open>skip\<close> or \<open>limit\<close> of \<open>2\<^sup>6\<^sup>3\<close> or more cannot be bound as a parameter of the query:
  the call raises.
\<close>

theorem get_history_page:
  "(0 \<le> skip \<and> skip < 9223372036854775808 \<and> 0 \<le> limit \<and> limit < 9223372036854775808 \<longrightarrow>
      get_history (Some skip) (Some limit) db =
        Inr (map history_item_of
               (take (nat limit) (drop (nat skip) (order_by_timestamp_desc db))))
      \<and> sorted_wrt (\<lambda>a b. instant (item_timestamp b) \<le> instant (item_timestamp a))
           (rows_of (get_history (Some skip) (Some limit) db))
      \<and> length (rows_of (get_history (Some skip) (Some limit) db))
           = min (nat limit) (length db - nat skip))
   \<and> mset (order_by_timestamp_desc db) = mset db
   \<and> sorted_wrt (\<lambda>a b. row_timestamp b \<le> row_timestamp a) (order_by_timestamp_desc db)
   \<and> item_id (history_item_of r) = row_id r \<and> item_city (history_item_of r) = row_city r
   \<and> item_timestamp (history_item_of r) = Isoformat (row_timestamp r)
   \<and> temperature (history_item_of r) = temperature r
   \<and> humidity (history_item_of r) = humidity r
   \<and> description (history_item_of r) = description r
   \<and> windspeed (history_item_of r) = windspeed r
   \<and> winddirection (history_item_of r) = winddirection r
   \<and> weathercode (history_item_of r) = weathercode r
   \<and> get_history None (Some limit) db = get_history (Some 0) (Some limit) db
   \<and> get_history (Some skip) None db = get_history (Some skip) (Some 10) db
   \<and> get_history None None db = get_history (Some 0) (Some 10) db
   \<and> (9223372036854775808 \<le> skip \<or> 9223372036854775808 \<le> limit \<longrightarrow>
        get_history (Some skip) (Some limit) db = Inl OtherException)"
proof -
  have page: "get_history (Some skip) (Some limit) db =
        Inr (map history_item_of
               (take (nat limit) (drop (nat skip) (order_by_timestamp_desc db))))
      \<and> sorted_wrt (\<lambda>a b. instant (item_timestamp b) \<le> instant (item_timestamp a))
           (rows_of (get_history (Some skip) (Some limit) db))
      \<and> length (rows_of (get_history (Some skip) (Some limit) db))
           = min (nat limit) (length db - nat skip)"
    if range: "0 \<le> skip" "skip < 9223372036854775808"
      "0 \<le> limit" "limit < 9223372036854775808"
  proof -
    note rows = get_history_in_range [OF range, of db]
    have "sorted_wrt (\<lambda>a b. instant (item_timestamp b) \<le> instant (item_timestamp a))
        (take (nat limit) (drop (nat skip)
           (map history_item_of (order_by_timestamp_desc db))))"
      by (intro sorted_wrt_take sorted_wrt_drop history_items_sorted)
    then have newest_first:
      "sorted_wrt (\<lambda>a b. instant (item_timestamp b) \<le> instant (item_timestamp a))
         (rows_of (get_history (Some skip) (Some limit) db))"
      by (simp add: rows rows_of_def take_map drop_map)
    have size: "length (rows_of (get_history (Some skip) (Some limit) db))
        = min (nat limit) (length db - nat skip)"
      by (simp add: rows rows_of_def order_by_timestamp_desc_def min.commute)
    from rows newest_first size show ?thesis
      by blast
  qed
  show ?thesis
    using page order_by_timestamp_desc_mset [of db] order_by_timestamp_desc_sorted [of db]
      history_item_fields [of r] get_history_defaults(1) [of limit db]
      get_history_defaults(2) [of skip db] get_history_defaults(3) [of db]
      get_history_overflow [of skip limit db]
    by (intro conjI impI) blast+
qed

lemma four_rows_history:
  "get_history (Some 0) (Some 2) four_rows
       = Inr (map history_item_of [row_with 4 20, row_with 1 10])
   \<and> get_history (Some 1) (Some 2) four_rows
       = Inr (map history_item_of [row_with 1 10, row_with 3 10])"
  by (simp add: get_history_def offset_limit_def bind_exc_def int64_def
      order_by_timestamp_desc_def four_rows_def row_with_def)

lemma item_id_of_row: "item_id (history_item_of (row_with i t)) = i"
  by (simp add: history_item_of_def row_with_def)

theorem get_history_page_witness:
  "length (rows_of (get_history (Some 3) (Some 5) four_rows)) = 1
   \<and> get_history (Some 3) (Some 5) four_rows
       = Inr (map history_item_of (take 5 (drop 3 (order_by_timestamp_desc four_rows))))"
proof -
  have range: "0 \<le> (3::int) \<and> (3::int) < 9223372036854775808
      \<and> 0 \<le> (5::int) \<and> (5::int) < 9223372036854775808"
    by simp
  from get_history_page [where skip = 3 and limit = 5 and db = four_rows
      and r = "row_with 1 10"] range
  have size: "length (rows_of (get_history (Some 3) (Some 5) four_rows))
        = min (nat 5) (length four_rows - nat 3)"
    and page: "get_history (Some 3) (Some 5) four_rows
        = Inr (map history_item_of
                 (take (nat 5) (drop (nat 3) (order_by_timestamp_desc four_rows))))"
    by blast+
  have "length (rows_of (get_history (Some 3) (Some 5) four_rows)) = 1"
    using size by (simp add: four_rows_def)
  moreover have "get_history (Some 3) (Some 5) four_rows
       = Inr (map history_item_of (take 5 (drop 3 (order_by_timestamp_desc four_rows))))"
    using page by simp
  ultimately show ?thesis
    by (rule conjI)
qed

text \<open>
  The claim as it is written, for every \<open>limit \<ge> 0\<close>, fails at \<open>limit = 2\<^sup>6\<^sup>3\<close>: the
  call raises.
\<close>

theorem get_history_overflows:
  "get_history (Some 0) (Some 9223372036854775808) four_rows = Inl OtherException"
  by (simp add: get_history_def offset_limit_def bind_exc_def int64_def)

lemma disjoint_segments:
  assumes "distinct xs" and "a + m \<le> b"
  shows "set (take m (drop a xs)) \<inter> set (take k (drop b xs)) = {}"
proof -
  have "drop b xs = drop (b - (a + m)) (drop m (drop a xs))"
    using assms(2) by (simp add: add.commute)
  then have "set (take k (drop b xs)) \<subseteq> set (drop m (drop a xs))"
    by (metis set_drop_subset set_take_subset subset_trans)
  moreover have "set (take m (drop a xs)) \<inter> set (drop m (drop a xs)) = {}"
    using assms(1) by (metis append_take_drop_id distinct_append distinct_drop)
  ultimately show ?thesis by blast
qed

lemma history_ids_distinct:
  assumes "distinct (map row_id db)"
  shows "distinct (map item_id (map history_item_of (order_by_timestamp_desc db)))"
proof -
  have "map item_id (map history_item_of (order_by_timestamp_desc db))
      = map row_id (order_by_timestamp_desc db)"
    by (simp add: history_item_of_def)
  moreover have "mset (map row_id (order_by_timestamp_desc db)) = mset (map row_id db)"
    by (simp add: order_by_timestamp_desc_def)
  ultimately show ?thesis
    using assms by (metis mset_eq_imp_distinct_iff)
qed

lemma page_ids:
  assumes "0 \<le> s" and "0 \<le> m"
  shows "map item_id (rows_of (get_history (Some s) (Some m) db)) =
     (if s < 9223372036854775808 \<and> m < 9223372036854775808
      then take (nat m) (drop (nat s)
             (map item_id (map history_item_of (order_by_timestamp_desc db))))
      else [])"
proof (cases "s < 9223372036854775808 \<and> m < 9223372036854775808")
  case True
  then show ?thesis
    using assms by (simp add: get_history_in_range rows_of_def take_map drop_map)
next
  case False
  then have "get_history (Some s) (Some m) db = Inl OtherException"
    by (intro get_history_overflow) linarith
  then show ?thesis
    by (simp add: rows_of_def if_not_P [OF False])
qed

text \<open>
  Claim C8, as the code has it. In a table whose rows have distinct ids, a page of
  \<open>m\<close> rows has at most \<open>m\<close> rows, and the page at \<open>skip = n\<close> shares no row with the
  page at \<open>skip = n'\<close> whenever \<open>n' + m \<le> n\<close>: pages that start at least a page
  length apart do not overlap.
\<close>

theorem get_history_pages_disjoint:
  assumes "distinct (map row_id db)" and "0 \<le> n'" and "0 \<le> m" and "n' + m \<le> n"
  shows "length (rows_of (get_history (Some n) (Some m) db)) \<le> nat m
     \<and> item_id ` set (rows_of (get_history (Some n) (Some m) db))
         \<inter> item_id ` set (rows_of (get_history (Some n') (Some m) db)) = {}"
proof -
  let ?ids = "map item_id (map history_item_of (order_by_timestamp_desc db))"
  have n: "0 \<le> n"
    using assms(2,3,4) by linarith
  have "nat n' + nat m \<le> nat n"
    using assms(2,3,4) by linarith
  then have "set (take (nat m) (drop (nat n') ?ids))
      \<inter> set (take (nat m) (drop (nat n) ?ids)) = {}"
    using history_ids_distinct [OF assms(1)] by (rule disjoint_segments [rotated])
  then have "set (map item_id (rows_of (get_history (Some n) (Some m) db)))
      \<inter> set (map item_id (rows_of (get_history (Some n') (Some m) db))) = {}"
    unfolding page_ids [OF n assms(3)] page_ids [OF assms(2,3)] by auto
  moreover have "length (map item_id (rows_of (get_history (Some n) (Some m) db))) \<le> nat m"
    unfolding page_ids [OF n assms(3)] by simp
  ultimately show ?thesis by simp
qed

theorem get_history_pages_disjoint_witness:
  "distinct (map row_id four_rows) \<and> (0::int) + 2 \<le> 2
   \<and> item_id ` set (rows_of (get_history (Some 2) (Some 2) four_rows))
       \<inter> item_id ` set (rows_of (get_history (Some 0) (Some 2) four_rows)) = {}"
proof -
  have ids: "distinct (map row_id four_rows)"
    by (simp add: four_rows_def row_with_def)
  then show ?thesis
    using get_history_pages_disjoint [of four_rows 0 2 2] by simp
qed

text \<open>
  The claim as it is written, for every pair \<open>n' < n\<close>, fails: with \<open>limit = 2\<close> the
  row with id \<open>1\<close> is returned at \<open>skip = 0\<close> and again at \<open>skip = 1\<close>.
\<close>

theorem get_history_pages_overlap:
  "map item_id (rows_of (get_history (Some 0) (Some 2) four_rows)) = [4, 1]
   \<and> map item_id (rows_of (get_history (Some 1) (Some 2) four_rows)) = [1, 3]
   \<and> set (rows_of (get_history (Some 1) (Some 2) four_rows))
       \<inter> set (rows_of (get_history (Some 0) (Some 2) four_rows)) \<noteq> {}"
  by (simp add: four_rows_history item_id_of_row rows_of_def)

section \<open>Properties of the insert\<close>

lemma sort_key_snoc_least:
  "\<forall>x\<in>set xs. f r < f x \<Longrightarrow> sort_key f (xs @ [r]) = r # sort_key f xs"
proof (induction xs)
  case Nil
  then show ?case by simp
next
  case (Cons x xs)
  then have "\<not> f x \<le> f r" and "sort_key f (xs @ [r]) = r # sort_key f xs"
    by auto
  then show ?case by simp
qed

lemma fold_max_ge: "(x::int) \<in> set xs \<Longrightarrow> x \<le> fold max xs a"
proof -
  assume "x \<in> set xs"
  then have "x \<le> Max (set (a # xs))" by simp
  then show ?thesis by (simp only: Max.set_eq_fold)
qed

lemma next_id_fresh: "next_id db \<notin> row_id ` set db"
proof
  assume "next_id db \<in> row_id ` set db"
  then have "next_id db \<in> set (map row_id db)" by simp
  then have "next_id db \<le> fold max (map row_id db) 0" by (rule fold_max_ge)
  then show False by (simp add: next_id_def)
qed

lemma db_insert_eq:
  "\<exists>row. db_insert now city weather db = (row, db @ [row])
      \<and> row_id row = next_id db \<and> row_timestamp row = now \<and> row_city row = city"
  by (simp add: db_insert_def Let_def)

lemma first_page:
  "get_history (Some 0) (Some 1) db
     = Inr (map history_item_of (take 1 (order_by_timestamp_desc db)))"
  using get_history_in_range [of 0 1 db] by simp

lemma first_after_insert:
  assumes "\<forall>r\<in>set db. row_timestamp r < row_timestamp row"
  shows "get_history (Some 0) (Some 1) (db @ [row]) = Inr [history_item_of row]"
proof -
  have "\<forall>x\<in>set db. - row_timestamp row < - row_timestamp x"
    using assms by simp
  then have "order_by_timestamp_desc (db @ [row]) = row # order_by_timestamp_desc db"
    unfolding order_by_timestamp_desc_def by (rule sort_key_snoc_least)
  then show ?thesis
    by (simp add: first_page)
qed

lemma not_first_after_insert:
  assumes "\<exists>r\<in>set db. row_timestamp row < row_timestamp r"
  shows "get_history (Some 0) (Some 1) (db @ [row]) \<noteq> Inr [history_item_of row]"
proof
  assume first: "get_history (Some 0) (Some 1) (db @ [row]) = Inr [history_item_of row]"
  obtain r where r: "r \<in> set db" "row_timestamp row < row_timestamp r"
    using assms by blast
  have "length (order_by_timestamp_desc (db @ [row])) = Suc (length db)"
    by (simp add: order_by_timestamp_desc_def)
  then obtain h rest where listing: "order_by_timestamp_desc (db @ [row]) = h # rest"
    by (cases "order_by_timestamp_desc (db @ [row])") simp_all
  have "history_item_of h = history_item_of row"
    using first by (simp add: first_page listing)
  then have "item_timestamp (history_item_of h) = item_timestamp (history_item_of row)"
    by simp
  then have head: "row_timestamp h = row_timestamp row"
    by (simp add: history_item_of_def)
  have "r \<in> set (order_by_timestamp_desc (db @ [row]))"
    using r(1) by (simp add: order_by_timestamp_desc_def)
  then have "r = h \<or> r \<in> set rest"
    by (simp add: listing)
  moreover have "\<forall>x\<in>set rest. row_timestamp x \<le> row_timestamp h"
    using order_by_timestamp_desc_sorted [of "db @ [row]"] by (simp add: listing)
  ultimately have "row_timestamp r \<le> row_timestamp h"
    by auto
  then show False
    using r(2) head by simp
qed

lemma db_insert_keeps_ids_distinct:
  "distinct (map row_id db) \<Longrightarrow> distinct (map row_id (snd (db_insert now city weather db)))"
  using next_id_fresh [of db] db_insert_eq [of now city weather db] by auto

lemma handler_success_inserts:
  assumes "fst (get_weather_by_city e city st) = Inr body"
    and "snd (get_weather_from_openmeteo (runtime_lower e) (upstream e) city) = Inr fetched"
  shows "table (snd (get_weather_by_city e city st))
        = snd (db_insert (utcnow_insert e) city fetched (table st))
      \<and> resp_id body = row_id (fst (db_insert (utcnow_insert e) city fetched (table st)))"
  using assms
  by (auto simp: get_weather_by_city_def weather_try_def Let_def inc_def observe_def
      split: prod.splits sum.splits py_exc.splits if_splits)

text \<open>
  Claim C9, as the code has it. The insert gives the new row an id that no stored row
  has and, as its timestamp, the reading \<open>now\<close> of the wall clock taken when the row is
  written; it appends the row to the table and returns it. The history with
  \<open>skip = 0\<close> and \<open>limit = 1\<close> right after the insert is exactly that row when \<open>now\<close>
  is later than every stored timestamp, and is not that row when some stored timestamp
  is later than \<open>now\<close>. A successful call of the weather handler is such an insert
  of what the client has fetched, with the reading of the clock at the write, and
  answers with the id of the new row.
\<close>

theorem insert_then_history:
  "row_id (fst (db_insert now city weather db)) \<notin> row_id ` set db
   \<and> row_timestamp (fst (db_insert now city weather db)) = now
   \<and> row_city (fst (db_insert now city weather db)) = city
   \<and> snd (db_insert now city weather db) = db @ [fst (db_insert now city weather db)]
   \<and> ((\<forall>r\<in>set db. row_timestamp r < now) \<longrightarrow>
        get_history (Some 0) (Some 1) (snd (db_insert now city weather db))
          = Inr [history_item_of (fst (db_insert now city weather db))])
   \<and> ((\<exists>r\<in>set db. now < row_timestamp r) \<longrightarrow>
        get_history (Some 0) (Some 1) (snd (db_insert now city weather db))
          \<noteq> Inr [history_item_of (fst (db_insert now city weather db))])
   \<and> (fst (get_weather_by_city e city st) = Inr body
        \<and> snd (get_weather_from_openmeteo (runtime_lower e) (upstream e) city) = Inr fetched
      \<longrightarrow>
        table (snd (get_weather_by_city e city st))
          = snd (db_insert (utcnow_insert e) city fetched (table st))
        \<and> resp_id body
          = row_id (fst (db_insert (utcnow_insert e) city fetched (table st))))"
proof -
  obtain row where ins: "db_insert now city weather db = (row, db @ [row])"
    and rid: "row_id row = next_id db" and ts: "row_timestamp row = now"
    and rcity: "row_city row = city"
    using db_insert_eq by blast
  have fresh_id: "row_id row \<notin> row_id ` set db"
    unfolding rid by (rule next_id_fresh)
  have first: "get_history (Some 0) (Some 1) (db @ [row]) = Inr [history_item_of row]"
    if "\<forall>r\<in>set db. row_timestamp r < now"
    using that ts by (intro first_after_insert) simp
  have not_first: "get_history (Some 0) (Some 1) (db @ [row]) \<noteq> Inr [history_item_of row]"
    if "\<exists>r\<in>set db. now < row_timestamp r"
    using that ts by (intro not_first_after_insert) simp
  show ?thesis
    unfolding ins fst_conv snd_conv
    using fresh_id ts rcity first not_first
      handler_success_inserts [of e city st body fetched]
    by (intro conjI impI) blast+
qed

theorem insert_then_history_witness:
  "map row_timestamp four_rows = [10, 5, 10, 20]
   \<and> map item_id (rows_of (get_history (Some 0) (Some 1)
        (snd (db_insert 30 (py ''paris'')
           (weather_with (JInt 65) [1071, 1089, 1085, 1086] (JInt 0)) four_rows)))) = [5]
   \<and> map item_id (rows_of (get_history (Some 0) (Some 1)
        (snd (db_insert 15 (py ''paris'')
           (weather_with (JInt 65) [1071, 1089, 1085, 1086] (JInt 0)) four_rows)))) \<noteq> [5]"
proof -
  let ?w = "weather_with (JInt 65) [1071, 1089, 1085, 1086] (JInt 0)"
  have stamps: "map row_timestamp four_rows = [10, 5, 10, 20]"
    by (simp add: four_rows_def row_with_def)
  have older: "\<forall>r\<in>set four_rows. row_timestamp r < 30"
    by (simp add: four_rows_def row_with_def)
  have later: "\<exists>r\<in>set four_rows. 15 < row_timestamp r"
    by (simp add: four_rows_def row_with_def)
  have new_id: "row_id (fst (db_insert t (py ''paris'') ?w four_rows)) = 5" for t
    by (simp add: db_insert_def Let_def next_id_def four_rows_def row_with_def)
  from insert_then_history [where db = four_rows and now = 30 and city = "py ''paris''"
      and weather = ?w] older
  have "get_history (Some 0) (Some 1) (snd (db_insert 30 (py ''paris'') ?w four_rows))
      = Inr [history_item_of (fst (db_insert 30 (py ''paris'') ?w four_rows))]"
    by blast
  then have first: "map item_id (rows_of (get_history (Some 0) (Some 1)
      (snd (db_insert 30 (py ''paris'') ?w four_rows)))) = [5]"
    by (simp add: rows_of_def history_item_of_def new_id)
  have listing: "map item_id (rows_of (get_history (Some 0) (Some 1)
      (snd (db_insert 15 (py ''paris'') ?w four_rows)))) = [4]"
    by (simp add: Let_def db_insert_def next_id_def four_rows_def row_with_def weather_with_def
        get_history_def offset_limit_def bind_exc_def int64_def rows_of_def
        order_by_timestamp_desc_def history_item_of_def)
  from stamps first listing show ?thesis
    by simp
qed

text \<open>
  The claim as it is written fails in both of its parts when the wall clock does not
  move forward. After an insert at the reading \<open>5\<close> into a table whose row has the
  timestamp \<open>10\<close>, the new row has id \<open>2\<close> and the first row of the history is the row
  with id \<open>1\<close>. And in a request during which the clock is set back from \<open>1000\<close>, read
  at line 155 before the insert begins, to \<open>900\<close>, the stored timestamp is \<open>900\<close>.
\<close>

theorem insert_not_first:
  "row_id (fst (db_insert 5 (py ''paris'')
      (weather_with (JInt 65) [1071, 1089, 1085, 1086] (JInt 0)) [row_with 1 10])) = 2
   \<and> map item_id (rows_of (get_history (Some 0) (Some 1)
        (snd (db_insert 5 (py ''paris'')
           (weather_with (JInt 65) [1071, 1089, 1085, 1086] (JInt 0)) [row_with 1 10]))))
       = [1]
   \<and> time_start env_clock_back = 1000
   \<and> map row_timestamp (table (snd (get_weather_by_city env_clock_back (py ''paris'') fresh)))
       = [900]"
proof -
  have client: "get_weather_from_openmeteo str_lower
      (always (Response 200 (Inr (body_with (JInt 0) (JList [JInt 65])))))
      (py ''paris'')
     = (1, Inr (weather_with (JInt 65) [1071, 1089, 1085, 1086] (JInt 0)))"
    by (simp add: client_eval)
  have handler: "map row_timestamp
      (table (snd (get_weather_by_city env_clock_back (py ''paris'') fresh))) = [900]"
    by (simp add: env_clock_back_def handler_eval client weather_with_def Let_def)
  have insert: "row_id (fst (db_insert 5 (py ''paris'')
      (weather_with (JInt 65) [1071, 1089, 1085, 1086] (JInt 0)) [row_with 1 10])) = 2
   \<and> map item_id (rows_of (get_history (Some 0) (Some 1)
        (snd (db_insert 5 (py ''paris'')
           (weather_with (JInt 65) [1071, 1089, 1085, 1086] (JInt 0)) [row_with 1 10]))))
       = [1]"
    by (simp add: Let_def db_insert_def next_id_def row_with_def weather_with_def
        get_history_def offset_limit_def bind_exc_def int64_def rows_of_def
        order_by_timestamp_desc_def history_item_of_def)
  have "time_start env_clock_back = 1000"
    by (simp add: env_clock_back_def)
  with insert handler show ?thesis
    by simp
qed

section \<open>Properties of the weather client\<close>























text \<open>
  Claim C1, at an answer whose humidity series starts with \<open>0\<close>. The series is present
  and not empty, and its first entry is the number \<open>0\<close>; the client returns the humidity
  \<open>50\<close>, and the handler stores and returns \<open>50\<close>: line 136 replaces every first entry
  that Python counts as false by the default.
\<close>

theorem humidity_zero_replaced:
  "get_weather_from_openmeteo str_lower
      (always (Response 200 (Inr (body_with (JInt 0) (JList [JInt 0, JInt 40])))))
      (py ''paris'')
     = (1, Inr (weather_with (JInt 50) [1071, 1089, 1085, 1086] (JInt 0)))
   \<and> map humidity (table (snd (get_weather_by_city
        (env_with (Response 200 (Inr (body_with (JInt 0) (JList [JInt 0, JInt 40])))) False)
        (py ''paris'') fresh))) = [JInt 50]
   \<and> map_sum id humidity (fst (get_weather_by_city
        (env_with (Response 200 (Inr (body_with (JInt 0) (JList [JInt 0, JInt 40])))) False)
        (py ''paris'') fresh)) = Inr (JInt 50)"
proof -
  have client: "get_weather_from_openmeteo str_lower
      (always (Response 200 (Inr (body_with (JInt 0) (JList [JInt 0, JInt 40])))))
      (py ''paris'')
     = (1, Inr (weather_with (JInt 50) [1071, 1089, 1085, 1086] (JInt 0)))"
    by (simp add: client_eval)
  then show ?thesis
    by (simp add: handler_eval weather_with_def Let_def)
qed

text \<open>
  The humidity of a result in general, for an answer whose series is a list: the first
  entry when the list is not empty and the entry counts as true, \<open>50\<close> otherwise.
\<close>

lemma humidity_of_series:
  assumes "net 0 = Response sc (Inr (JDict kvs))"
    and "map_of kvs (py ''hourly'') = Some (JDict hourly)"
    and "map_of hourly (py ''relativehumidity_2m'') = Some (JList series)"
    and "get_weather_from_openmeteo lower net city = (gets, Inr weather)"
  shows "humidity weather =
     (case series of [] \<Rightarrow> JInt 50 | first # _ \<Rightarrow> if truthy first then first else JInt 50)"
proof -
  have has_hourly: "dict_contains kvs (py ''hourly'')"
    and has_series: "dict_contains hourly (py ''relativehumidity_2m'')"
    using assms(2,3) by (simp_all add: dict_contains_map_of)
  have "hourly_humidity (JDict kvs) = Inr (case series of [] \<Rightarrow> JNull | first # _ \<Rightarrow> first)"
    using assms(2,3) has_hourly has_series
    by (simp add: hourly_humidity_def bind_exc_def dict_getitem_def split: list.splits)
  then show ?thesis
    using assms(1,4)
    by (auto simp: get_weather_from_openmeteo_def openmeteo_try_def get_city_coordinates_eq
        bind_exc_def split: sum.splits if_splits prod.splits list.splits)
qed

text \<open>
  Claim C3, as the code has it. When the client returns a result for an answer whose
  weather code is \<open>wcode\<close>, the result carries that code, and its description is the
  label that the table holds for the code when the code is a key of the table, and the
  literal of line 125 otherwise. That literal is the Russian word for "unknown", code
  points 1053, 1077, 1080, 1079, 1074, 1077, 1089, 1090, 1085, 1086. For the code \<open>0\<close> the
  description is the table's first label, code points 1071, 1089, 1085, 1086.
\<close>

theorem weather_code_description:
  assumes "net 0 = Response sc (Inr data)"
    and "subscript_key data (py ''current_weather'') = Inr current"
    and "subscript_key current (py ''weathercode'') = Inr wcode"
    and "get_weather_from_openmeteo lower net city = (gets, Inr weather)"
  shows "weathercode weather = wcode
    \<and> description weather =
        (case int_key_of wcode of
           None \<Rightarrow> [1053, 1077, 1080, 1079, 1074, 1077, 1089, 1090, 1085, 1086]
         | Some k \<Rightarrow>
            (case map_of WEATHER_CODES k of
               None \<Rightarrow> [1053, 1077, 1080, 1079, 1074, 1077, 1089, 1090, 1085, 1086]
             | Some label \<Rightarrow> label))
    \<and> (wcode = JInt 0 \<longrightarrow> description weather = [1071, 1089, 1085, 1086])"
proof -
  have main: "weathercode weather = wcode
    \<and> description weather =
        (case int_key_of wcode of
           None \<Rightarrow> [1053, 1077, 1080, 1079, 1074, 1077, 1089, 1090, 1085, 1086]
         | Some k \<Rightarrow>
            (case map_of WEATHER_CODES k of
               None \<Rightarrow> [1053, 1077, 1080, 1079, 1074, 1077, 1089, 1090, 1085, 1086]
             | Some label \<Rightarrow> label))"
    using assms
    by (auto simp: get_weather_from_openmeteo_def openmeteo_try_def get_city_coordinates_eq
        bind_exc_def int_dict_get_def dict_get_def
        split: sum.splits if_splits prod.splits option.splits)
  have clear: "map_of WEATHER_CODES 0 = Some [1071, 1089, 1085, 1086]"
    by (simp add: WEATHER_CODES_def)
  show ?thesis
    using main clear by auto
qed

lemma unlisted_code_call:
  "get_weather_from_openmeteo str_lower
      (always (Response 200 (Inr (body_with (JInt 4) (JList [JInt 65])))))
      (py ''paris'')
     = (1, Inr (weather_with (JInt 65)
          [1053, 1077, 1080, 1079, 1074, 1077, 1089, 1090, 1085, 1086] (JInt 4)))"
  by (simp add: client_eval)

theorem weather_code_description_witness:
  "description (weather_with (JInt 65)
      [1053, 1077, 1080, 1079, 1074, 1077, 1089, 1090, 1085, 1086] (JInt 4))
     = (case map_of WEATHER_CODES 4 of
          None \<Rightarrow> [1053, 1077, 1080, 1079, 1074, 1077, 1089, 1090, 1085, 1086]
        | Some label \<Rightarrow> label)"
proof -
  have answer: "always (Response 200 (Inr (body_with (JInt 4) (JList [JInt 65])))) 0
      = Response 200 (Inr (body_with (JInt 4) (JList [JInt 65])))"
    by (simp add: always_def)
  have block: "subscript_key (body_with (JInt 4) (JList [JInt 65])) (py ''current_weather'')
      = Inr (JDict [(py ''temperature'', JFloat (Finite 21.5)),
                    (py ''windspeed'', JFloat (Finite 3.4)),
                    (py ''winddirection'', JInt 180),
                    (py ''weathercode'', JInt 4)])"
    by (simp add: body_with_def dict_getitem_def py_def)
  have code: "subscript_key (JDict [(py ''temperature'', JFloat (Finite 21.5)),
                    (py ''windspeed'', JFloat (Finite 3.4)),
                    (py ''winddirection'', JInt 180),
                    (py ''weathercode'', JInt 4)]) (py ''weathercode'') = Inr (JInt 4)"
    by (simp add: dict_getitem_def py_def)
  from weather_code_description [OF answer block code unlisted_code_call]
  show ?thesis
    by simp
qed

text \<open>
  The claim as it is written names the literal \<open>Unknown\<close>. For the code \<open>4\<close>, which is
  not a key of the table, the description is the literal of line 125, which is another
  string.
\<close>

theorem unknown_label_not_english:
  "\<not> dict_contains WEATHER_CODES 4
   \<and> map_sum id description (snd (get_weather_from_openmeteo str_lower
        (always (Response 200 (Inr (body_with (JInt 4) (JList [JInt 65])))))
        (py ''paris'')))
      = Inr [1053, 1077, 1080, 1079, 1074, 1077, 1089, 1090, 1085, 1086]
   \<and> map_sum id description (snd (get_weather_from_openmeteo str_lower
        (always (Response 200 (Inr (body_with (JInt 4) (JList [JInt 65])))))
        (py ''paris'')))
      \<noteq> Inr (py ''Unknown'')"
  by (simp add: unlisted_code_call weather_with_def)
    (simp add: dict_contains_def WEATHER_CODES_def py_def)




end
